theory Spec2Isabelle
  imports Complex_Main
begin

section \<open>Data model of \<open>sma_strategy.py\<close>\<close>

text \<open>
  The closing prices are a pandas column of floating-point numbers. A cell is modelled
  as an exact rational, or \<open>None\<close> for not-a-number: rounding and the infinities of
  IEEE arithmetic are outside the model, every other step of \<open>on_bar\<close> is kept.
\<close>

type_synonym price = "rat option"

type_synonym series = "price list"

text \<open>The exceptions that the modelled operations can raise.\<close>

datatype py_error = ValueError | IndexError | KeyError

text \<open>
  A data frame: the row labels (timestamps, as integers) and the columns by name, in
  order. \<open>bar_dict\<close> maps a symbol to the frame of its bars.
\<close>

record dataframe =
  df_index :: "int list"
  df_columns :: "(string \<times> series) list"

type_synonym bar_dict = "string \<rightharpoonup> dataframe"

text \<open>\<open>self.parameters\<close>, the dictionary set up by \<open>initialize\<close>.\<close>

record parameters =
  symbol :: string
  fast_period :: int
  slow_period :: int
  trade_size :: int

record position =
  quantity :: int

datatype action = BUY | SELL

datatype order = Order action string int

text \<open>
  A log line keeps the values that the f-string of the source renders: the label of the
  last bar, the symbol and the two current averages.
\<close>

datatype log_entry = Initialized string | Signal action int string price price

text \<open>
  The context of the host platform, as far as the strategy touches it: the subscribed
  symbols, the positions it reports, and the calls of \<open>log\<close>, \<open>buy\<close> and \<open>sell\<close> it
  has received, oldest first. \<open>self.context\<close> and the \<open>context\<close> argument of
  \<open>on_bar\<close> are the same object.
\<close>

record "context" =
  ctx_symbols :: "string list"
  ctx_positions :: "string \<rightharpoonup> position"
  ctx_log :: "log_entry list"
  ctx_orders :: "order list"

section \<open>The operations of the host and of pandas that \<open>on_bar\<close> calls\<close>

definition log_msg :: "context \<Rightarrow> log_entry \<Rightarrow> context" where
  "log_msg ctx e = ctx\<lparr>ctx_log := ctx_log ctx @ [e]\<rparr>"

definition get_position :: "context \<Rightarrow> string \<Rightarrow> position option" where
  "get_position ctx symb = ctx_positions ctx symb"

definition buy :: "context \<Rightarrow> string \<Rightarrow> int \<Rightarrow> context" where
  "buy ctx symb n = ctx\<lparr>ctx_orders := ctx_orders ctx @ [Order BUY symb n]\<rparr>"

definition sell :: "context \<Rightarrow> string \<Rightarrow> int \<Rightarrow> context" where
  "sell ctx symb n = ctx\<lparr>ctx_orders := ctx_orders ctx @ [Order SELL symb n]\<rparr>"

text \<open>
  \<open>name in bars\<close>, \<open>bars[name]\<close> and \<open>bars.empty\<close> (an axis of length 0). The column
  labels of a frame need not be distinct: \<open>bars[name]\<close> is a series when one column
  carries the label, and a frame of all the columns that carry it when several do.
\<close>

definition has_column :: "dataframe \<Rightarrow> string \<Rightarrow> bool" where
  "has_column bars name = (map_of (df_columns bars) name \<noteq> None)"

datatype selection = Column series | Columns "series list"

definition columns_named :: "dataframe \<Rightarrow> string \<Rightarrow> series list" where
  "columns_named bars name = map snd (filter (\<lambda>c. fst c = name) (df_columns bars))"

definition getitem :: "dataframe \<Rightarrow> string \<Rightarrow> py_error + selection" where
  "getitem bars name =
     (case columns_named bars name of
        [] \<Rightarrow> Inl KeyError
      | [col] \<Rightarrow> Inr (Column col)
      | cols \<Rightarrow> Inr (Columns cols))"

definition df_empty :: "dataframe \<Rightarrow> bool" where
  "df_empty bars = (df_index bars = [] \<or> df_columns bars = [])"

text \<open>\<open>xs.iloc[i]\<close> and \<open>xs[i]\<close>: a negative position counts from the end.\<close>

definition iloc :: "'a list \<Rightarrow> int \<Rightarrow> py_error + 'a" where
  "iloc xs i =
     (if 0 \<le> i \<and> i < int (length xs) then Inr (xs ! nat i)
      else if i < 0 \<and> - i \<le> int (length xs) then Inr (xs ! nat (int (length xs) + i))
      else Inl IndexError)"

definition isna :: "price \<Rightarrow> bool" where
  "isna v = (v = None)"

text \<open>
  The mean of the last \<open>w\<close> cells of \<open>xs\<close>, as \<open>rolling(window=w).mean()\<close> computes it
  at the last position of \<open>xs\<close>: \<open>min_periods\<close> defaults to the window, so the value
  is not-a-number when fewer than \<open>w\<close> cells exist, when one of them is not-a-number,
  and when the window is 0. pandas obtains the sum of the window from a running sum
  in floating point, adding the cell that enters and subtracting the one that leaves;
  here the sum is the exact sum of the window, and the rounding error that the running
  sum carries along the column is not modelled.
\<close>

definition window_mean :: "nat \<Rightarrow> series \<Rightarrow> price" where
  "window_mean w xs =
     (if w = 0 \<or> length xs < w then None
      else if list_ex isna (drop (length xs - w) xs) then None
      else Some (sum_list (map the (drop (length xs - w) xs)) / of_nat w))"

text \<open>
  \<open>close.rolling(window=w).mean()\<close>: a series as long as \<open>close\<close>, whose cell \<open>i\<close>
  is the mean of the window ending at \<open>i\<close>. pandas raises \<open>ValueError\<close> for a
  negative window.
\<close>

definition rolling_mean :: "series \<Rightarrow> int \<Rightarrow> py_error + series" where
  "rolling_mean close w =
     (if w < 0 then Inl ValueError
      else Inr (map (\<lambda>i. window_mean (nat w) (take (Suc i) close)) [0..<length close]))"

text \<open>
  The same two operations on a frame of several columns: \<open>len\<close> is the number of rows
  and \<open>rolling(window=w).mean()\<close> works column by column.
\<close>

definition frame_length :: "series list \<Rightarrow> nat" where
  "frame_length cols = (case cols of [] \<Rightarrow> 0 | col # _ \<Rightarrow> length col)"

definition rolling_mean_frame :: "series list \<Rightarrow> int \<Rightarrow> py_error + series list" where
  "rolling_mean_frame cols w =
     (if w < 0 then Inl ValueError
      else Inr (map (\<lambda>close. map (\<lambda>i. window_mean (nat w) (take (Suc i) close))
                               [0..<length close]) cols))"

text \<open>Comparisons of floats: every comparison with not-a-number is false.\<close>

definition le_price :: "price \<Rightarrow> price \<Rightarrow> bool" where
  "le_price a b = (case (a, b) of (Some x, Some y) \<Rightarrow> x \<le> y | _ \<Rightarrow> False)"

definition lt_price :: "price \<Rightarrow> price \<Rightarrow> bool" where
  "lt_price a b = (case (a, b) of (Some x, Some y) \<Rightarrow> x < y | _ \<Rightarrow> False)"

section \<open>The strategy\<close>

text \<open>\<open>SmaStrategy.initialize\<close>: the parameters, the subscription and the log line.\<close>

definition initialize :: "context \<Rightarrow> parameters \<times> context" where
  "initialize ctx =
     (let P = \<lparr>symbol = ''AAPL'', fast_period = 10, slow_period = 30, trade_size = 100\<rparr>
      in (P, log_msg (ctx\<lparr>ctx_symbols := [symbol P]\<rparr>) (Initialized (symbol P))))"

text \<open>
  Lines 64 and 65 of \<open>on_bar\<close>: the held quantity that the host reports, 0 when it
  reports no position.
\<close>

definition current_quantity :: "context \<Rightarrow> string \<Rightarrow> int" where
  "current_quantity ctx symb =
     (case get_position ctx symb of Some position \<Rightarrow> quantity position | None \<Rightarrow> 0)"

text \<open>
  Lines 67 to 78 of \<open>on_bar\<close>: the two crossover rules, tried in order. \<open>label\<close> is
  \<open>bars.index[-1]\<close>.
\<close>

definition trading_logic ::
  "parameters \<Rightarrow> context \<Rightarrow> int \<Rightarrow> price \<Rightarrow> price \<Rightarrow> price \<Rightarrow> price \<Rightarrow> context" where
  "trading_logic P ctx label fast_ma_prev fast_ma_curr slow_ma_prev slow_ma_curr =
     (if le_price fast_ma_prev slow_ma_prev \<and> lt_price slow_ma_curr fast_ma_curr then
        (if current_quantity ctx (symbol P) \<le> 0 then
           buy (log_msg ctx (Signal BUY label (symbol P) fast_ma_curr slow_ma_curr))
             (symbol P) (trade_size P)
         else ctx)
      else if le_price slow_ma_prev fast_ma_prev \<and> lt_price fast_ma_curr slow_ma_curr then
        (if 0 < current_quantity ctx (symbol P) then
           sell (log_msg ctx (Signal SELL label (symbol P) fast_ma_curr slow_ma_curr))
             (symbol P) (trade_size P)
         else ctx)
      else ctx)"

text \<open>
  \<open>SmaStrategy.on_bar\<close>. The result is \<open>Inr\<close> of the context after the call when the
  method returns, and \<open>Inl\<close> of the exception when one leaves it. The \<open>try\<close> block
  covers the two rolling means only: an exception raised there ends the call with the
  context unchanged.

  When \<open>bars['close']\<close> is a frame, lines 43 to 51 run on it as on a series. In the
  condition of lines 54 to 56 the two lengths are tested first; \<open>iloc[-1]\<close> is then a
  row of the frame, \<open>pd.isna\<close> of it a series of booleans, and \<open>or\<close> asks for the truth
  value of that series, which pandas refuses with \<open>ValueError\<close>.
\<close>

definition on_bar :: "parameters \<Rightarrow> context \<Rightarrow> bar_dict \<Rightarrow> py_error + context" where
  "on_bar P ctx bar_dict =
     (case bar_dict (symbol P) of
        None \<Rightarrow> Inr ctx
      | Some bars \<Rightarrow>
          if \<not> has_column bars ''close'' \<or> df_empty bars then Inr ctx
          else
            (case getitem bars ''close'' of
               Inl e \<Rightarrow> Inl e
             | Inr (Columns cols) \<Rightarrow>
                 if int (frame_length cols) < slow_period P then Inr ctx
                 else
                   (case (rolling_mean_frame cols (fast_period P),
                          rolling_mean_frame cols (slow_period P)) of
                      (Inr fast_ma_frame, Inr slow_ma_frame) \<Rightarrow>
                        if frame_length fast_ma_frame < 2 \<or> frame_length slow_ma_frame < 2
                        then Inr ctx
                        else Inl ValueError
                    | _ \<Rightarrow> Inr ctx)
             | Inr (Column close) \<Rightarrow>
                 if int (length close) < slow_period P then Inr ctx
                 else
                   (case (rolling_mean close (fast_period P),
                          rolling_mean close (slow_period P)) of
                      (Inr fast_ma_series, Inr slow_ma_series) \<Rightarrow>
                        if length fast_ma_series < 2 \<or> length slow_ma_series < 2 then Inr ctx
                        else
                          (case (iloc fast_ma_series (- 1), iloc fast_ma_series (- 2),
                                 iloc slow_ma_series (- 1), iloc slow_ma_series (- 2),
                                 iloc (df_index bars) (- 1)) of
                             (Inr fast_ma_curr, Inr fast_ma_prev,
                              Inr slow_ma_curr, Inr slow_ma_prev, Inr label) \<Rightarrow>
                               if isna fast_ma_curr \<or> isna fast_ma_prev
                                  \<or> isna slow_ma_curr \<or> isna slow_ma_prev
                               then Inr ctx
                               else Inr (trading_logic P ctx label
                                           fast_ma_prev fast_ma_curr slow_ma_prev slow_ma_curr)
                           | _ \<Rightarrow> Inl IndexError)
                    | _ \<Rightarrow> Inr ctx)))"

section \<open>Observing a call\<close>

text \<open>
  The specification speaks of \<open>evaluate\<close>, which returns the decision that \<open>on_bar\<close>
  hands to the host by calling \<open>buy\<close> or \<open>sell\<close>. Here \<open>evaluate\<close> is \<open>on_bar\<close>
  followed by reading the orders that the call has added to the context: \<open>Inr []\<close> is
  "no decision", \<open>Inl\<close> an exception that reaches the caller.
\<close>

definition evaluate :: "parameters \<Rightarrow> context \<Rightarrow> bar_dict \<Rightarrow> py_error + order list" where
  "evaluate P ctx bar_dict =
     (case on_bar P ctx bar_dict of
        Inl e \<Rightarrow> Inl e
      | Inr ctx' \<Rightarrow> Inr (drop (length (ctx_orders ctx)) (ctx_orders ctx')))"

text \<open>
  The \<open>price_history\<close> of the specification: the \<open>close\<close> column of the bars that
  the host delivers for a symbol, \<open>NoHistory\<close> when the host delivers no bars, an
  empty frame or a frame without that column. Bars in which several columns are
  labelled \<open>close\<close> hold no single sequence of prices: \<open>SeveralColumns\<close>.
\<close>

datatype history = NoHistory | History series | SeveralColumns

definition price_history :: "bar_dict \<Rightarrow> string \<Rightarrow> history" where
  "price_history bar_dict symb =
     (case bar_dict symb of
        None \<Rightarrow> NoHistory
      | Some bars \<Rightarrow>
          if df_empty bars then NoHistory
          else
            (case getitem bars ''close'' of
               Inl e \<Rightarrow> NoHistory
             | Inr (Column close) \<Rightarrow> History close
             | Inr (Columns cols) \<Rightarrow> SeveralColumns))"

text \<open>The bars of one symbol with the given closing prices, rows labelled 0, 1, ...\<close>

definition close_bars :: "string \<Rightarrow> series \<Rightarrow> bar_dict" where
  "close_bars symb prices =
     [symb \<mapsto> \<lparr>df_index = map int [0..<length prices], df_columns = [(''close'', prices)]\<rparr>]"


section \<open>Concrete inputs\<close>

text \<open>
  The parameters of the first scenario of the specification, and a context in which the
  host reports the position \<open>q\<close> in one symbol and has received no call yet.
\<close>

definition scenario_parameters :: parameters where
  "scenario_parameters =
     \<lparr>symbol = ''AAPL'', fast_period = 2, slow_period = 3, trade_size = 100\<rparr>"

definition holding :: "string \<Rightarrow> int \<Rightarrow> context" where
  "holding symb q =
     \<lparr>ctx_symbols = [symb], ctx_positions = [symb \<mapsto> \<lparr>quantity = q\<rparr>],
      ctx_log = [], ctx_orders = []\<rparr>"

section \<open>The pandas operations\<close>

lemma rolling_mean_length: "rolling_mean close w = Inr s \<Longrightarrow> length s = length close"
  by (auto simp: rolling_mean_def split: if_splits)

lemma rolling_mean_Inr_iff: "(\<exists>s. rolling_mean close w = Inr s) \<longleftrightarrow> 0 \<le> w"
  by (auto simp: rolling_mean_def)

lemma rolling_mean_Inl: "rolling_mean close w = Inl e \<Longrightarrow> w < 0"
  by (auto simp: rolling_mean_def split: if_splits)

lemma iloc_curr: "xs \<noteq> [] \<Longrightarrow> iloc xs (- 1) = Inr (xs ! (length xs - 1))"
  by (cases xs) (auto simp: iloc_def nat_diff_distrib)

lemma iloc_prev: "2 \<le> length xs \<Longrightarrow> iloc xs (- 2) = Inr (xs ! (length xs - 2))"
  by (auto simp: iloc_def nat_diff_distrib)

lemma iloc_curr_Inr: "iloc xs (- 1) = Inr v \<Longrightarrow> xs \<noteq> []"
  by (auto simp: iloc_def split: if_splits)

lemma iloc_prev_Inr: "iloc xs (- 2) = Inr v \<Longrightarrow> 2 \<le> length xs"
  by (auto simp: iloc_def split: if_splits)

lemma rolling_mean_curr:
  assumes "rolling_mean close w = Inr s" and "close \<noteq> []"
  shows "iloc s (- 1) = Inr (window_mean (nat w) close)"
proof -
  from assms(1) have s: "s = map (\<lambda>i. window_mean (nat w) (take (Suc i) close)) [0..<length close]"
    by (auto simp: rolling_mean_def split: if_splits)
  from assms(2) have n: "0 < length close" by simp
  have "s \<noteq> []" using s assms(2) by simp
  then have "iloc s (- 1) = Inr (s ! (length s - 1))" by (rule iloc_curr)
  also have "s ! (length s - 1) = window_mean (nat w) (take (Suc (length close - 1)) close)"
    using n by (simp add: s)
  also have "take (Suc (length close - 1)) close = close" using n by simp
  finally show ?thesis .
qed

lemma rolling_mean_prev:
  assumes "rolling_mean close w = Inr s" and "2 \<le> length close"
  shows "iloc s (- 2) = Inr (window_mean (nat w) (butlast close))"
proof -
  from assms(1) have s: "s = map (\<lambda>i. window_mean (nat w) (take (Suc i) close)) [0..<length close]"
    by (auto simp: rolling_mean_def split: if_splits)
  have "2 \<le> length s" using s assms(2) by simp
  then have "iloc s (- 2) = Inr (s ! (length s - 2))" by (rule iloc_prev)
  also have "s ! (length s - 2) = window_mean (nat w) (take (Suc (length close - 2)) close)"
  proof -
    have "length close - 2 < length close" using assms(2) by arith
    then show ?thesis by (simp add: s)
  qed
  also have "Suc (length close - 2) = length close - 1" using assms(2) by simp
  also have "take (length close - 1) close = butlast close" by (simp add: butlast_conv_take)
  finally show ?thesis .
qed

lemma window_mean_short: "length xs < w \<Longrightarrow> window_mean w xs = None"
  by (simp add: window_mean_def)


lemma window_mean_replicate:
  "window_mean w (replicate m c) = (if w = 0 \<or> m < w \<or> c = None then None else c)"
proof (cases "w = 0 \<or> m < w")
  case True
  then show ?thesis by (auto simp: window_mean_def)
next
  case False
  then have d: "drop (length (replicate m c) - w) (replicate m c) = replicate w c" by simp
  show ?thesis
  proof (cases c)
    case None
    with False d show ?thesis by (simp add: window_mean_def list_ex_iff isna_def)
  next
    case (Some x)
    have "sum_list (map the (replicate w (Some x))) = of_nat w * x"
      by (simp add: sum_list_replicate)
    with False d Some show ?thesis
      by (simp add: window_mean_def list_ex_iff isna_def)
  qed
qed





lemma crossover_values:
  assumes "rolling_mean close fast = Inr fast_ma_series"
    and "rolling_mean close slow = Inr slow_ma_series"
    and "iloc fast_ma_series (- 2) = Inr fast_prev"
    and "iloc fast_ma_series (- 1) = Inr fast_curr"
    and "iloc slow_ma_series (- 2) = Inr slow_prev"
    and "iloc slow_ma_series (- 1) = Inr slow_curr"
  shows "2 \<le> length close" and "0 \<le> fast" and "0 \<le> slow"
    and "window_mean (nat fast) (butlast close) = fast_prev"
    and "window_mean (nat fast) close = fast_curr"
    and "window_mean (nat slow) (butlast close) = slow_prev"
    and "window_mean (nat slow) close = slow_curr"
proof -
  show len: "2 \<le> length close"
    using iloc_prev_Inr[OF assms(3)] rolling_mean_length[OF assms(1)] by simp
  then have ne: "close \<noteq> []" by auto
  show "0 \<le> fast" using assms(1) by (auto simp: rolling_mean_def split: if_splits)
  show "0 \<le> slow" using assms(2) by (auto simp: rolling_mean_def split: if_splits)
  show "window_mean (nat fast) (butlast close) = fast_prev"
    using rolling_mean_prev[OF assms(1) len] assms(3) by simp
  show "window_mean (nat fast) close = fast_curr"
    using rolling_mean_curr[OF assms(1) ne] assms(4) by simp
  show "window_mean (nat slow) (butlast close) = slow_prev"
    using rolling_mean_prev[OF assms(2) len] assms(5) by simp
  show "window_mean (nat slow) close = slow_curr"
    using rolling_mean_curr[OF assms(2) ne] assms(6) by simp
qed

section \<open>What a call of \<open>on_bar\<close> does\<close>

lemma placed_trading_logic:
  "drop (length (ctx_orders ctx))
     (ctx_orders (trading_logic P ctx label fast_ma_prev fast_ma_curr slow_ma_prev slow_ma_curr)) =
   (if le_price fast_ma_prev slow_ma_prev \<and> lt_price slow_ma_curr fast_ma_curr then
      (if current_quantity ctx (symbol P) \<le> 0 then [Order BUY (symbol P) (trade_size P)] else [])
    else if le_price slow_ma_prev fast_ma_prev \<and> lt_price fast_ma_curr slow_ma_curr then
      (if 0 < current_quantity ctx (symbol P) then [Order SELL (symbol P) (trade_size P)] else [])
    else [])"
  by (simp add: trading_logic_def buy_def sell_def log_msg_def)

lemma has_column_named: "has_column bars name \<longleftrightarrow> columns_named bars name \<noteq> []"
proof -
  have "map_of cs name \<noteq> None \<longleftrightarrow> map snd (filter (\<lambda>c. fst c = name) cs) \<noteq> []"
    for cs :: "(string \<times> series) list"
    by (induction cs) auto
  then show ?thesis by (simp add: has_column_def columns_named_def)
qed

lemma getitem_Inl: "getitem bars name = Inl e \<Longrightarrow> \<not> has_column bars name"
  by (auto simp: getitem_def has_column_named split: list.splits)

lemma getitem_Inr: "getitem bars name = Inr sel \<Longrightarrow> has_column bars name"
  by (auto simp: getitem_def has_column_named split: list.splits)

lemma frame_length_rolling:
  "rolling_mean_frame cols w = Inr frame \<Longrightarrow> frame_length frame = frame_length cols"
  by (auto simp: rolling_mean_frame_def frame_length_def split: if_splits list.splits)

lemma on_bar_no_history:
  "price_history bar_dict (symbol P) = NoHistory \<Longrightarrow> on_bar P ctx bar_dict = Inr ctx"
  by (auto simp: price_history_def on_bar_def dest: getitem_Inl
      split: option.splits if_splits sum.splits selection.splits)

lemma on_bar_several_columns:
  assumes "price_history bar_dict (symbol P) = SeveralColumns"
  shows "\<exists>n. \<forall>ctx. on_bar P ctx bar_dict =
     (if int n < slow_period P \<or> fast_period P < 0 \<or> slow_period P < 0 \<or> n < 2
      then Inr ctx else Inl ValueError)"
proof -
  from assms obtain bars cols where bars: "bar_dict (symbol P) = Some bars" "\<not> df_empty bars"
    "getitem bars ''close'' = Inr (Columns cols)"
    by (auto simp: price_history_def split: option.splits if_splits sum.splits selection.splits)
  have col: "has_column bars ''close''" using bars(3) by (rule getitem_Inr)
  have "on_bar P ctx bar_dict =
     (if int (frame_length cols) < slow_period P \<or> fast_period P < 0 \<or> slow_period P < 0
         \<or> frame_length cols < 2
      then Inr ctx else Inl ValueError)" for ctx
  proof (cases "fast_period P < 0 \<or> slow_period P < 0")
    case True
    then show ?thesis
      using bars col by (auto simp: on_bar_def rolling_mean_frame_def)
  next
    case False
    then obtain f s where fs: "rolling_mean_frame cols (fast_period P) = Inr f"
      "rolling_mean_frame cols (slow_period P) = Inr s"
      by (auto simp: rolling_mean_frame_def)
    show ?thesis
      using False bars col frame_length_rolling[OF fs(1)] frame_length_rolling[OF fs(2)]
      by (simp add: on_bar_def fs)
  qed
  then show ?thesis by blast
qed

lemma evaluate_several_columns:
  assumes "price_history bar_dict (symbol P) = SeveralColumns"
  shows "\<exists>r. (r = Inr [] \<or> r = Inl ValueError) \<and> (\<forall>ctx. evaluate P ctx bar_dict = r)"
proof -
  from on_bar_several_columns[OF assms] obtain n where
    n: "on_bar P ctx bar_dict =
     (if int n < slow_period P \<or> fast_period P < 0 \<or> slow_period P < 0 \<or> n < 2
      then Inr ctx else Inl ValueError)" for ctx by blast
  show ?thesis
  proof (cases "int n < slow_period P \<or> fast_period P < 0 \<or> slow_period P < 0 \<or> n < 2")
    case True
    then have "evaluate P ctx bar_dict = Inr []" for ctx
      by (simp add: evaluate_def n del: One_nat_def)
    then show ?thesis by blast
  next
    case False
    then have "evaluate P ctx bar_dict = Inl ValueError" for ctx
      by (simp add: evaluate_def n del: One_nat_def)
    then show ?thesis by blast
  qed
qed

lemma on_bar_history:
  assumes "price_history bar_dict (symbol P) = History close"
  shows "\<exists>label. on_bar P ctx bar_dict =
     Inr (if int (length close) < slow_period P \<or> fast_period P < 0 \<or> slow_period P < 0
             \<or> length close < 2
             \<or> isna (window_mean (nat (fast_period P)) close)
             \<or> isna (window_mean (nat (fast_period P)) (butlast close))
             \<or> isna (window_mean (nat (slow_period P)) close)
             \<or> isna (window_mean (nat (slow_period P)) (butlast close))
          then ctx
          else trading_logic P ctx label
                 (window_mean (nat (fast_period P)) (butlast close))
                 (window_mean (nat (fast_period P)) close)
                 (window_mean (nat (slow_period P)) (butlast close))
                 (window_mean (nat (slow_period P)) close))"
proof -
  from assms obtain bars where bars: "bar_dict (symbol P) = Some bars" "\<not> df_empty bars"
    "getitem bars ''close'' = Inr (Column close)"
    by (auto simp: price_history_def split: option.splits if_splits sum.splits selection.splits)
  then have idx: "df_index bars \<noteq> []" by (simp add: df_empty_def)
  have col: "has_column bars ''close''" using bars(3) by (rule getitem_Inr)
  have pre: "on_bar P ctx bar_dict =
     (if int (length close) < slow_period P then Inr ctx
      else
        (case (rolling_mean close (fast_period P), rolling_mean close (slow_period P)) of
           (Inr fast_ma_series, Inr slow_ma_series) \<Rightarrow>
             if length fast_ma_series < 2 \<or> length slow_ma_series < 2 then Inr ctx
             else
               (case (iloc fast_ma_series (- 1), iloc fast_ma_series (- 2),
                      iloc slow_ma_series (- 1), iloc slow_ma_series (- 2),
                      iloc (df_index bars) (- 1)) of
                  (Inr fast_ma_curr, Inr fast_ma_prev,
                   Inr slow_ma_curr, Inr slow_ma_prev, Inr label) \<Rightarrow>
                    if isna fast_ma_curr \<or> isna fast_ma_prev
                       \<or> isna slow_ma_curr \<or> isna slow_ma_prev
                    then Inr ctx
                    else Inr (trading_logic P ctx label
                                fast_ma_prev fast_ma_curr slow_ma_prev slow_ma_curr)
                | _ \<Rightarrow> Inl IndexError)
         | _ \<Rightarrow> Inr ctx))"
    using bars col by (simp add: on_bar_def)
  show ?thesis
  proof (cases "int (length close) < slow_period P \<or> fast_period P < 0 \<or> slow_period P < 0
             \<or> length close < 2")
    case True
    then show ?thesis
      by (auto simp: pre rolling_mean_def split: sum.splits)
  next
    case False
    then have len: "2 \<le> length close" and ne: "close \<noteq> []"
      and fp: "0 \<le> fast_period P" and sp: "0 \<le> slow_period P"
      and enough: "\<not> int (length close) < slow_period P" by auto
    from fp obtain fs where fs: "rolling_mean close (fast_period P) = Inr fs"
      by (auto simp: rolling_mean_def)
    from sp obtain ss where ss: "rolling_mean close (slow_period P) = Inr ss"
      by (auto simp: rolling_mean_def)
    have lens: "\<not> (length fs < 2 \<or> length ss < 2)"
      using len rolling_mean_length[OF fs] rolling_mean_length[OF ss] by simp
    have vals: "iloc fs (- 1) = Inr (window_mean (nat (fast_period P)) close)"
      "iloc fs (- 2) = Inr (window_mean (nat (fast_period P)) (butlast close))"
      "iloc ss (- 1) = Inr (window_mean (nat (slow_period P)) close)"
      "iloc ss (- 2) = Inr (window_mean (nat (slow_period P)) (butlast close))"
      using rolling_mean_curr[OF fs ne] rolling_mean_prev[OF fs len]
        rolling_mean_curr[OF ss ne] rolling_mean_prev[OF ss len] by simp_all
    have lab: "iloc (df_index bars) (- 1) = Inr (df_index bars ! (length (df_index bars) - 1))"
      using idx by (rule iloc_curr)
    show ?thesis
      using False lens enough by (auto simp: pre fs ss vals lab)
  qed
qed

lemma evaluate_no_history:
  "price_history bar_dict (symbol P) = NoHistory \<Longrightarrow> evaluate P ctx bar_dict = Inr []"
  by (simp add: evaluate_def on_bar_no_history)

lemma evaluate_history:
  assumes "price_history bar_dict (symbol P) = History close"
  shows "evaluate P ctx bar_dict =
     Inr (if int (length close) < slow_period P \<or> fast_period P < 0 \<or> slow_period P < 0
             \<or> length close < 2
             \<or> isna (window_mean (nat (fast_period P)) close)
             \<or> isna (window_mean (nat (fast_period P)) (butlast close))
             \<or> isna (window_mean (nat (slow_period P)) close)
             \<or> isna (window_mean (nat (slow_period P)) (butlast close))
          then []
          else if le_price (window_mean (nat (fast_period P)) (butlast close))
                    (window_mean (nat (slow_period P)) (butlast close))
                  \<and> lt_price (window_mean (nat (slow_period P)) close)
                       (window_mean (nat (fast_period P)) close)
          then (if current_quantity ctx (symbol P) \<le> 0
                then [Order BUY (symbol P) (trade_size P)] else [])
          else if le_price (window_mean (nat (slow_period P)) (butlast close))
                    (window_mean (nat (fast_period P)) (butlast close))
                  \<and> lt_price (window_mean (nat (fast_period P)) close)
                       (window_mean (nat (slow_period P)) close)
          then (if 0 < current_quantity ctx (symbol P)
                then [Order SELL (symbol P) (trade_size P)] else [])
          else [])"
proof -
  from on_bar_history[OF assms, of ctx] obtain label where
    ob: "on_bar P ctx bar_dict =
     Inr (if int (length close) < slow_period P \<or> fast_period P < 0 \<or> slow_period P < 0
             \<or> length close < 2
             \<or> isna (window_mean (nat (fast_period P)) close)
             \<or> isna (window_mean (nat (fast_period P)) (butlast close))
             \<or> isna (window_mean (nat (slow_period P)) close)
             \<or> isna (window_mean (nat (slow_period P)) (butlast close))
          then ctx
          else trading_logic P ctx label
                 (window_mean (nat (fast_period P)) (butlast close))
                 (window_mean (nat (fast_period P)) close)
                 (window_mean (nat (slow_period P)) (butlast close))
                 (window_mean (nat (slow_period P)) close))" by blast
  show ?thesis
    unfolding evaluate_def ob
    by (simp add: placed_trading_logic del: One_nat_def)
qed

lemma price_history_close_bars:
  "price_history (close_bars symb prices) symb =
     (if prices = [] then NoHistory else History prices)"
  by (simp add: price_history_def close_bars_def df_empty_def getitem_def columns_named_def)

lemma evaluate_guard:
  assumes "price_history bar_dict (symbol P) = History close"
    and "int (length close) < slow_period P \<or> fast_period P < 0 \<or> slow_period P < 0
             \<or> length close < 2
             \<or> isna (window_mean (nat (fast_period P)) close)
             \<or> isna (window_mean (nat (fast_period P)) (butlast close))
             \<or> isna (window_mean (nat (slow_period P)) close)
             \<or> isna (window_mean (nat (slow_period P)) (butlast close))"
  shows "evaluate P ctx bar_dict = Inr []"
  unfolding evaluate_history[OF assms(1)] using assms(2) by (rule if_P[THEN arg_cong])




lemma trading_logic_positions:
  "ctx_positions (trading_logic P ctx label a b c d) = ctx_positions ctx"
  by (simp add: trading_logic_def buy_def sell_def log_msg_def)

lemma on_bar_positions:
  assumes "on_bar P ctx bar_dict = Inr ctx'"
  shows "ctx_positions ctx' = ctx_positions ctx"
proof (cases "price_history bar_dict (symbol P)")
  case NoHistory
  from on_bar_no_history[OF NoHistory, of ctx] assms show ?thesis by simp
next
  case (History close)
  from on_bar_history[OF History, of ctx] obtain label G where
    "on_bar P ctx bar_dict = Inr (if G then ctx else trading_logic P ctx label
                 (window_mean (nat (fast_period P)) (butlast close))
                 (window_mean (nat (fast_period P)) close)
                 (window_mean (nat (slow_period P)) (butlast close))
                 (window_mean (nat (slow_period P)) close))" by blast
  with assms show ?thesis by (auto simp: trading_logic_positions split: if_splits)
next
  case SeveralColumns
  from on_bar_several_columns[OF SeveralColumns] obtain n G where
    "on_bar P ctx bar_dict = (if G then Inr ctx else Inl ValueError)" by blast
  with assms show ?thesis by (auto split: if_splits)
qed

lemma on_bar_returns:
  assumes "price_history bar_dict (symbol P) \<noteq> SeveralColumns"
  shows "\<exists>ctx'. on_bar P ctx bar_dict = Inr ctx'"
proof (cases "price_history bar_dict (symbol P)")
  case NoHistory
  then show ?thesis by (simp add: on_bar_no_history)
next
  case (History close)
  from on_bar_history[OF History, of ctx] show ?thesis by blast
next
  case SeveralColumns
  with assms show ?thesis by simp
qed

lemma evaluate_quantity:
  assumes "current_quantity ctx2 (symbol P) = current_quantity ctx1 (symbol P)"
  shows "evaluate P ctx2 bar_dict = evaluate P ctx1 bar_dict"
proof (cases "price_history bar_dict (symbol P)")
  case NoHistory
  then show ?thesis by (simp add: evaluate_no_history)
next
  case (History close)
  show ?thesis unfolding evaluate_history[OF History] assms ..
next
  case SeveralColumns
  from evaluate_several_columns[OF SeveralColumns] show ?thesis by auto
qed

lemma decision_shape:
  "(if G then [] else if A then (if Q1 then [b] else []) else if C then (if Q2 then [s] else [])
    else []) = xs \<Longrightarrow> xs = [] \<or> (xs = [b] \<and> Q1) \<or> (xs = [s] \<and> Q2)"
  by (auto split: if_splits)

lemma evaluate_shape:
  assumes "evaluate P ctx bar_dict = Inr orders"
  shows "orders = []
     \<or> (orders = [Order BUY (symbol P) (trade_size P)] \<and> current_quantity ctx (symbol P) \<le> 0)
     \<or> (orders = [Order SELL (symbol P) (trade_size P)] \<and> 0 < current_quantity ctx (symbol P))"
proof (cases "price_history bar_dict (symbol P)")
  case NoHistory
  with assms show ?thesis by (simp add: evaluate_no_history)
next
  case (History close)
  from assms[unfolded evaluate_history[OF History] sum.inject]
  show ?thesis by (rule decision_shape)
next
  case SeveralColumns
  from evaluate_several_columns[OF SeveralColumns] assms show ?thesis by auto
qed

lemma evaluate_returns:
  assumes "price_history bar_dict (symbol P) \<noteq> SeveralColumns"
  shows "\<exists>orders. evaluate P ctx bar_dict = Inr orders"
  using on_bar_returns[OF assms, of ctx] by (auto simp: evaluate_def)

lemma window_means_scenario:
  "window_mean 2 [Some 10, Some 10, Some 10, Some 12] = Some 11"
  "window_mean 2 [Some 10, Some 10, Some 10] = Some 10"
  "window_mean 3 [Some 10, Some 10, Some 10, Some 12] = Some (32 / 3)"
  "window_mean 3 [Some 10, Some 10, Some 10] = Some 10"
  "window_mean 2 [Some 10, Some 10, Some 10, Some 12, Some 14] = Some 13"
  "window_mean 3 [Some 10, Some 10, Some 10, Some 12, Some 14] = Some 12"
  "window_mean 3 [Some 10, Some 10] = None"
  by code_simp+

lemma prefixes_scenario:
  "map (\<lambda>k. take k [Some 10, Some 10, Some 10, Some 12, Some (14::rat)]) [0..<6] =
     [[], [Some 10], [Some 10, Some 10], [Some 10, Some 10, Some 10],
      [Some 10, Some 10, Some 10, Some 12], [Some 10, Some 10, Some 10, Some 12, Some 14]]"
  by code_simp

section \<open>The crossover rules\<close>

text \<open>
  Claim C1. When the guards pass (enough history, both rolling means computed, the four
  values read from them defined) and \<open>fast_prev \<le> slow_prev\<close> and
  \<open>fast_curr > slow_curr\<close>, the call places the order \<open>BUY(symbol, trade_size)\<close> if
  the current quantity is at most 0, and places no order if it is positive.
\<close>

theorem buy_crossover:
  assumes "price_history bar_dict (symbol P) = History close"
    and "slow_period P \<le> int (length close)"
    and "rolling_mean close (fast_period P) = Inr fast_ma_series"
    and "rolling_mean close (slow_period P) = Inr slow_ma_series"
    and "iloc fast_ma_series (- 2) = Inr (Some fast_prev)"
    and "iloc fast_ma_series (- 1) = Inr (Some fast_curr)"
    and "iloc slow_ma_series (- 2) = Inr (Some slow_prev)"
    and "iloc slow_ma_series (- 1) = Inr (Some slow_curr)"
    and "fast_prev \<le> slow_prev" and "fast_curr > slow_curr"
  shows "evaluate P ctx bar_dict =
     Inr (if current_quantity ctx (symbol P) \<le> 0
          then [Order BUY (symbol P) (trade_size P)] else [])"
  using assms(2,9,10) crossover_values(1-3)[OF assms(3-8)]
  by (simp add: evaluate_history[OF assms(1)] crossover_values(4-7)[OF assms(3-8)]
      isna_def le_price_def lt_price_def)

theorem buy_crossover_witness:
  "rolling_mean [Some 10, Some 10, Some 10, Some 12] 2 = Inr [None, Some 10, Some 10, Some 11]
   \<and> rolling_mean [Some 10, Some 10, Some 10, Some 12] 3 = Inr [None, None, Some 10, Some (32 / 3)]
   \<and> evaluate scenario_parameters (holding ''AAPL'' 0)
        (close_bars ''AAPL'' [Some 10, Some 10, Some 10, Some 12]) = Inr [Order BUY ''AAPL'' 100]
   \<and> evaluate scenario_parameters (holding ''AAPL'' 100)
        (close_bars ''AAPL'' [Some 10, Some 10, Some 10, Some 12]) = Inr []"
proof -
  let ?h = "[Some 10, Some 10, Some 10, Some (12::rat)]"
  let ?fs = "[None, Some 10, Some 10, Some (11::rat)]"
  let ?ss = "[None, None, Some 10, Some (32 / 3 :: rat)]"
  have h: "price_history (close_bars ''AAPL'' ?h) (symbol scenario_parameters) = History ?h"
    by code_simp
  have n: "slow_period scenario_parameters \<le> int (length ?h)" by code_simp
  have f: "rolling_mean ?h (fast_period scenario_parameters) = Inr ?fs" by code_simp
  have s: "rolling_mean ?h (slow_period scenario_parameters) = Inr ?ss" by code_simp
  have i: "iloc ?fs (- 2) = Inr (Some 10)" "iloc ?fs (- 1) = Inr (Some 11)"
    "iloc ?ss (- 2) = Inr (Some 10)" "iloc ?ss (- 1) = Inr (Some (32 / 3))"
    by code_simp+
  have c: "(10::rat) \<le> 10" "(11::rat) > 32 / 3" by simp_all
  have q: "current_quantity (holding ''AAPL'' 0) ''AAPL'' = 0"
    "current_quantity (holding ''AAPL'' 100) ''AAPL'' = 100"
    "symbol scenario_parameters = ''AAPL''" "trade_size scenario_parameters = 100"
    by code_simp+
  have f': "rolling_mean ?h 2 = Inr ?fs" and s': "rolling_mean ?h 3 = Inr ?ss"
    using f s by (simp_all add: scenario_parameters_def)
  show ?thesis
    using buy_crossover[OF h n f s i c, of "holding ''AAPL'' 0"]
      buy_crossover[OF h n f s i c, of "holding ''AAPL'' 100"] f' s'
    by (simp add: q)
qed

text \<open>
  Claim C2. When the guards pass and \<open>fast_prev \<ge> slow_prev\<close> and
  \<open>fast_curr < slow_curr\<close>, the call places the order \<open>SELL(symbol, trade_size)\<close> if
  the current quantity is positive, and places no order otherwise: it opens no short
  position.
\<close>

theorem sell_crossover:
  assumes "price_history bar_dict (symbol P) = History close"
    and "slow_period P \<le> int (length close)"
    and "rolling_mean close (fast_period P) = Inr fast_ma_series"
    and "rolling_mean close (slow_period P) = Inr slow_ma_series"
    and "iloc fast_ma_series (- 2) = Inr (Some fast_prev)"
    and "iloc fast_ma_series (- 1) = Inr (Some fast_curr)"
    and "iloc slow_ma_series (- 2) = Inr (Some slow_prev)"
    and "iloc slow_ma_series (- 1) = Inr (Some slow_curr)"
    and "fast_prev \<ge> slow_prev" and "fast_curr < slow_curr"
  shows "evaluate P ctx bar_dict =
     Inr (if 0 < current_quantity ctx (symbol P)
          then [Order SELL (symbol P) (trade_size P)] else [])"
  using assms(2,9,10) crossover_values(1-3)[OF assms(3-8)]
  by (simp add: evaluate_history[OF assms(1)] crossover_values(4-7)[OF assms(3-8)]
      isna_def le_price_def lt_price_def)

theorem sell_crossover_witness:
  "rolling_mean [Some 10, Some 10, Some 10, Some 8] 2 = Inr [None, Some 10, Some 10, Some 9]
   \<and> rolling_mean [Some 10, Some 10, Some 10, Some 8] 3 = Inr [None, None, Some 10, Some (28 / 3)]
   \<and> evaluate scenario_parameters (holding ''AAPL'' 100)
        (close_bars ''AAPL'' [Some 10, Some 10, Some 10, Some 8]) = Inr [Order SELL ''AAPL'' 100]
   \<and> evaluate scenario_parameters (holding ''AAPL'' 0)
        (close_bars ''AAPL'' [Some 10, Some 10, Some 10, Some 8]) = Inr []"
proof -
  let ?h = "[Some 10, Some 10, Some 10, Some (8::rat)]"
  let ?fs = "[None, Some 10, Some 10, Some (9::rat)]"
  let ?ss = "[None, None, Some 10, Some (28 / 3 :: rat)]"
  have h: "price_history (close_bars ''AAPL'' ?h) (symbol scenario_parameters) = History ?h"
    by code_simp
  have n: "slow_period scenario_parameters \<le> int (length ?h)" by code_simp
  have f: "rolling_mean ?h (fast_period scenario_parameters) = Inr ?fs" by code_simp
  have s: "rolling_mean ?h (slow_period scenario_parameters) = Inr ?ss" by code_simp
  have i: "iloc ?fs (- 2) = Inr (Some 10)" "iloc ?fs (- 1) = Inr (Some 9)"
    "iloc ?ss (- 2) = Inr (Some 10)" "iloc ?ss (- 1) = Inr (Some (28 / 3))"
    by code_simp+
  have c: "(10::rat) \<ge> 10" "(9::rat) < 28 / 3" by simp_all
  have q: "current_quantity (holding ''AAPL'' 0) ''AAPL'' = 0"
    "current_quantity (holding ''AAPL'' 100) ''AAPL'' = 100"
    "symbol scenario_parameters = ''AAPL''" "trade_size scenario_parameters = 100"
    by code_simp+
  have f': "rolling_mean ?h 2 = Inr ?fs" and s': "rolling_mean ?h 3 = Inr ?ss"
    using f s by (simp_all add: scenario_parameters_def)
  show ?thesis
    using sell_crossover[OF h n f s i c, of "holding ''AAPL'' 0"]
      sell_crossover[OF h n f s i c, of "holding ''AAPL'' 100"] f' s'
    by (simp add: q)
qed

section \<open>Abstention\<close>

text \<open>
  Claim C3. When the host delivers no usable history for the symbol (no bars, an empty
  frame, no \<open>close\<close> column) or a history shorter than \<open>slow_period\<close>, the call
  returns normally, leaves the context as it was and so places no order.
\<close>

theorem insufficient_history:
  assumes "price_history bar_dict (symbol P) = NoHistory
     \<or> (\<exists>close. price_history bar_dict (symbol P) = History close
           \<and> int (length close) < slow_period P)"
  shows "on_bar P ctx bar_dict = Inr ctx \<and> evaluate P ctx bar_dict = Inr []"
proof -
  have "on_bar P ctx bar_dict = Inr ctx"
    using assms
  proof
    assume "price_history bar_dict (symbol P) = NoHistory"
    then show ?thesis by (rule on_bar_no_history)
  next
    assume "\<exists>close. price_history bar_dict (symbol P) = History close
           \<and> int (length close) < slow_period P"
    then obtain close where c: "price_history bar_dict (symbol P) = History close"
      "int (length close) < slow_period P" by blast
    from on_bar_history[OF c(1), of ctx] c(2) show ?thesis by auto
  qed
  then show ?thesis by (simp add: evaluate_def)
qed

theorem insufficient_history_witness:
  "price_history Map.empty ''AAPL'' = NoHistory
   \<and> on_bar scenario_parameters (holding ''AAPL'' 0) Map.empty = Inr (holding ''AAPL'' 0)
   \<and> evaluate scenario_parameters (holding ''AAPL'' 0) Map.empty = Inr []
   \<and> price_history (close_bars ''AAPL'' [Some 10, Some 12]) ''AAPL'' = History [Some 10, Some 12]
   \<and> evaluate scenario_parameters (holding ''AAPL'' 0)
        (close_bars ''AAPL'' [Some 10, Some 12]) = Inr []"
proof -
  have s: "symbol scenario_parameters = ''AAPL''" by code_simp
  have a: "price_history Map.empty (symbol scenario_parameters) = NoHistory"
    by (simp add: price_history_def)
  have b: "price_history (close_bars ''AAPL'' [Some 10, Some 12]) (symbol scenario_parameters)
      = History [Some 10, Some 12]" by code_simp
  have c: "int (length [Some 10, Some (12::rat)]) < slow_period scenario_parameters" by code_simp
  from b c have d: "price_history (close_bars ''AAPL'' [Some 10, Some 12]) (symbol scenario_parameters) = NoHistory
     \<or> (\<exists>close. price_history (close_bars ''AAPL'' [Some 10, Some 12]) (symbol scenario_parameters) = History close
           \<and> int (length close) < slow_period scenario_parameters)" by blast
  show ?thesis
    using insufficient_history[of Map.empty scenario_parameters "holding ''AAPL'' 0"] a
      insufficient_history[OF d, of "holding ''AAPL'' 0"] b
    by (simp add: s)
qed

text \<open>
  Claim C4. With \<open>fast_period \<le> slow_period\<close> and a history of exactly
  \<open>slow_period\<close> prices the call places no order, the previous slow average being
  undefined; and whenever one of the four values read from the rolling means is
  not-a-number, the call places no order.
\<close>

theorem undefined_average:
  assumes "price_history bar_dict (symbol P) = History close"
  shows "(fast_period P \<le> slow_period P \<and> int (length close) = slow_period P
            \<longrightarrow> evaluate P ctx bar_dict = Inr [])
       \<and> (int (length close) = slow_period P
            \<and> rolling_mean close (slow_period P) = Inr slow_ma_series
            \<longrightarrow> iloc slow_ma_series (- 2) \<noteq> Inr (Some v))
       \<and> (rolling_mean close (fast_period P) = Inr fast_ma_series
            \<and> rolling_mean close (slow_period P) = Inr slow_ma_series
            \<and> (iloc fast_ma_series (- 1) = Inr None \<or> iloc fast_ma_series (- 2) = Inr None
                 \<or> iloc slow_ma_series (- 1) = Inr None \<or> iloc slow_ma_series (- 2) = Inr None)
            \<longrightarrow> evaluate P ctx bar_dict = Inr [])"
proof (intro conjI impI)
  assume a: "fast_period P \<le> slow_period P \<and> int (length close) = slow_period P"
  show "evaluate P ctx bar_dict = Inr []"
  proof (cases "length close < 2")
    case True
    then show ?thesis by (simp add: evaluate_history[OF assms])
  next
    case False
    then have "length (butlast close) < nat (slow_period P)" using a by auto
    then have "window_mean (nat (slow_period P)) (butlast close) = None"
      by (rule window_mean_short)
    then show ?thesis by (simp add: evaluate_history[OF assms] isna_def)
  qed
next
  assume a: "int (length close) = slow_period P
            \<and> rolling_mean close (slow_period P) = Inr slow_ma_series"
  show "iloc slow_ma_series (- 2) \<noteq> Inr (Some v)"
  proof
    assume i: "iloc slow_ma_series (- 2) = Inr (Some v)"
    from a have r: "rolling_mean close (slow_period P) = Inr slow_ma_series" by simp
    have len: "2 \<le> length close"
      using iloc_prev_Inr[OF i] rolling_mean_length[OF r] by simp
    then have "length (butlast close) < nat (slow_period P)" using a by auto
    then have "window_mean (nat (slow_period P)) (butlast close) = None"
      by (rule window_mean_short)
    with rolling_mean_prev[OF r len] i show False by simp
  qed
next
  assume a: "rolling_mean close (fast_period P) = Inr fast_ma_series
            \<and> rolling_mean close (slow_period P) = Inr slow_ma_series
            \<and> (iloc fast_ma_series (- 1) = Inr None \<or> iloc fast_ma_series (- 2) = Inr None
                 \<or> iloc slow_ma_series (- 1) = Inr None \<or> iloc slow_ma_series (- 2) = Inr None)"
  then have f: "rolling_mean close (fast_period P) = Inr fast_ma_series"
    and s: "rolling_mean close (slow_period P) = Inr slow_ma_series" by simp_all
  show "evaluate P ctx bar_dict = Inr []"
  proof (cases "length close < 2")
    case True
    then show ?thesis by (simp add: evaluate_history[OF assms])
  next
    case False
    then have len: "2 \<le> length close" and ne: "close \<noteq> []" by auto
    from a rolling_mean_prev[OF f len] rolling_mean_curr[OF f ne]
      rolling_mean_prev[OF s len] rolling_mean_curr[OF s ne]
    have "window_mean (nat (fast_period P)) close = None
        \<or> window_mean (nat (fast_period P)) (butlast close) = None
        \<or> window_mean (nat (slow_period P)) close = None
        \<or> window_mean (nat (slow_period P)) (butlast close) = None"
      by auto
    then show ?thesis by (auto simp: evaluate_history[OF assms] isna_def)
  qed
qed

theorem undefined_average_witness:
  "price_history (close_bars ''AAPL'' [Some 10, Some 10, Some 12]) ''AAPL''
      = History [Some 10, Some 10, Some 12]
   \<and> rolling_mean [Some 10, Some 10, Some 12] 2 = Inr [None, Some 10, Some 11]
   \<and> rolling_mean [Some 10, Some 10, Some 12] 3 = Inr [None, None, Some (32 / 3)]
   \<and> iloc [None, None, Some (32 / 3 :: rat)] (- 2) = Inr None
   \<and> evaluate scenario_parameters (holding ''AAPL'' 0)
        (close_bars ''AAPL'' [Some 10, Some 10, Some 12]) = Inr []"
proof -
  let ?h = "[Some 10, Some 10, Some (12::rat)]"
  have s: "symbol scenario_parameters = ''AAPL''" "fast_period scenario_parameters = 2"
    "slow_period scenario_parameters = 3" by code_simp+
  have h: "price_history (close_bars ''AAPL'' ?h) (symbol scenario_parameters) = History ?h"
    by code_simp
  have f: "rolling_mean ?h 2 = Inr [None, Some 10, Some 11]" by code_simp
  have r: "rolling_mean ?h 3 = Inr [None, None, Some (32 / 3)]" by code_simp
  have i: "iloc [None, None, Some (32 / 3 :: rat)] (- 2) = Inr None" by code_simp
  show ?thesis
    using undefined_average[OF h, of "holding ''AAPL'' 0" "[None, None, Some (32 / 3)]" 10
        "[None, Some 10, Some 11]"] h f r i
    by (simp add: s)
qed

text \<open>
  Claim C7. On a constant price history the call places no order, whatever the periods
  and the current quantity: where both averages are defined they are equal, so neither
  strict comparison holds.
\<close>

theorem flat_series:
  assumes "price_history bar_dict (symbol P) = History (replicate n c)"
  shows "evaluate P ctx bar_dict = Inr []"
proof -
  have b: "butlast (replicate n c) = replicate (n - 1) c" by (simp add: butlast_conv_take min_def)
  show ?thesis
    unfolding evaluate_history[OF assms] b window_mean_replicate
    by (auto simp: isna_def lt_price_def split: option.splits)
qed

theorem flat_series_witness:
  "price_history (close_bars ''AAPL'' (replicate 5 (Some 7))) ''AAPL'' = History (replicate 5 (Some 7))
   \<and> evaluate scenario_parameters (holding ''AAPL'' 0)
        (close_bars ''AAPL'' (replicate 5 (Some 7))) = Inr []"
proof -
  have s: "symbol scenario_parameters = ''AAPL''" by code_simp
  have h: "price_history (close_bars ''AAPL'' (replicate 5 (Some 7))) (symbol scenario_parameters)
     = History (replicate 5 (Some 7))" by code_simp
  show ?thesis
    using flat_series[OF h, of "holding ''AAPL'' 0"] h by (simp add: s)
qed

section \<open>How much of the history decides\<close>




section \<open>The first scenario of the specification\<close>

text \<open>
  Claim C6. With periods 2 and 3 and a current quantity of 0, the calls on the successive
  prefixes of the prices 10, 10, 10, 12, 14 place exactly one order: the BUY at the
  prefix \<open>[10, 10, 10, 12]\<close>, the first bar on which the fast average exceeds the slow
  one after not exceeding it on the bar before.
\<close>

theorem scenario_one:
  assumes "current_quantity ctx s = 0"
  shows "map (\<lambda>k. evaluate \<lparr>symbol = s, fast_period = 2, slow_period = 3, trade_size = t\<rparr> ctx
                    (close_bars s (take k [Some 10, Some 10, Some 10, Some 12, Some 14])))
           [0..<6]
       = [Inr [], Inr [], Inr [], Inr [], Inr [Order BUY s t], Inr []]"
proof -
  define P where "P = \<lparr>symbol = s, fast_period = 2, slow_period = 3, trade_size = t\<rparr>"
  have P: "symbol P = s" "nat (fast_period P) = 2" "nat (slow_period P) = 3"
    "fast_period P = 2" "slow_period P = 3" "trade_size P = t"
    by (simp_all add: P_def)
  have h: "xs \<noteq> [] \<Longrightarrow> price_history (close_bars s xs) (symbol P) = History xs" for xs
    by (simp add: P price_history_close_bars)
  have 0: "evaluate P ctx (close_bars s []) = Inr []"
    by (simp add: evaluate_no_history P price_history_close_bars)
  have 1: "evaluate P ctx (close_bars s [Some 10]) = Inr []"
    by (rule evaluate_guard[OF h]) (simp_all add: P)
  have 2: "evaluate P ctx (close_bars s [Some 10, Some 10]) = Inr []"
    by (rule evaluate_guard[OF h]) (simp_all add: P)
  have 3: "evaluate P ctx (close_bars s [Some 10, Some 10, Some 10]) = Inr []"
    by (rule evaluate_guard[OF h]) (simp_all add: P window_means_scenario isna_def)
  have 4: "evaluate P ctx (close_bars s [Some 10, Some 10, Some 10, Some 12])
      = Inr [Order BUY s t]"
    using assms
    by (simp add: evaluate_history[OF h] P window_means_scenario isna_def le_price_def
        lt_price_def)
  have 5: "evaluate P ctx (close_bars s [Some 10, Some 10, Some 10, Some 12, Some 14]) = Inr []"
    by (simp add: evaluate_history[OF h] P window_means_scenario isna_def le_price_def
        lt_price_def)
  have "map (\<lambda>k. evaluate P ctx
                    (close_bars s (take k [Some 10, Some 10, Some 10, Some 12, Some 14])))
           [0..<6]
       = map (\<lambda>xs. evaluate P ctx (close_bars s xs))
           (map (\<lambda>k. take k [Some 10, Some 10, Some 10, Some 12, Some 14]) [0..<6])"
    by (simp only: map_map comp_def)
  also have "\<dots> = [Inr [], Inr [], Inr [], Inr [], Inr [Order BUY s t], Inr []]"
    unfolding prefixes_scenario by (simp add: 0 1 2 3 4 5)
  finally show ?thesis unfolding P_def .
qed

theorem scenario_one_witness:
  "current_quantity (holding ''AAPL'' 0) ''AAPL'' = 0
   \<and> map (\<lambda>k. evaluate scenario_parameters (holding ''AAPL'' 0)
                    (close_bars ''AAPL'' (take k [Some 10, Some 10, Some 10, Some 12, Some 14])))
           [0..<6]
       = [Inr [], Inr [], Inr [], Inr [], Inr [Order BUY ''AAPL'' 100], Inr []]"
proof -
  have q: "current_quantity (holding ''AAPL'' 0) ''AAPL'' = 0" by code_simp
  from scenario_one[OF q, of 100] q show ?thesis by (simp add: scenario_parameters_def)
qed

section \<open>Determinism and exceptions\<close>

text \<open>
  Claim C8. The decision is a function of the parameters, the bars and the current
  quantity alone: two contexts that report the same quantity get the same decision,
  whatever calls they have recorded before, and a second call on the context that the
  first call left repeats the decision of the first.
\<close>

theorem evaluate_deterministic:
  "(current_quantity ctx2 (symbol P) = current_quantity ctx1 (symbol P)
      \<longrightarrow> evaluate P ctx2 bar_dict = evaluate P ctx1 bar_dict)
   \<and> (on_bar P ctx1 bar_dict = Inr ctx'
      \<longrightarrow> evaluate P ctx' bar_dict = evaluate P ctx1 bar_dict)"
proof (intro conjI impI)
  assume "current_quantity ctx2 (symbol P) = current_quantity ctx1 (symbol P)"
  then show "evaluate P ctx2 bar_dict = evaluate P ctx1 bar_dict" by (rule evaluate_quantity)
next
  assume "on_bar P ctx1 bar_dict = Inr ctx'"
  then have "ctx_positions ctx' = ctx_positions ctx1" by (rule on_bar_positions)
  then have "current_quantity ctx' (symbol P) = current_quantity ctx1 (symbol P)"
    by (simp add: current_quantity_def get_position_def)
  then show "evaluate P ctx' bar_dict = evaluate P ctx1 bar_dict" by (rule evaluate_quantity)
qed

theorem evaluate_deterministic_witness:
  "on_bar scenario_parameters (holding ''AAPL'' 0)
       (close_bars ''AAPL'' [Some 10, Some 10, Some 10, Some 12])
     = Inr (buy (log_msg (holding ''AAPL'' 0) (Signal BUY 3 ''AAPL'' (Some 11) (Some (32 / 3))))
              ''AAPL'' 100)
   \<and> evaluate scenario_parameters (holding ''AAPL'' 0)
        (close_bars ''AAPL'' [Some 10, Some 10, Some 10, Some 12]) = Inr [Order BUY ''AAPL'' 100]
   \<and> evaluate scenario_parameters
        (buy (log_msg (holding ''AAPL'' 0) (Signal BUY 3 ''AAPL'' (Some 11) (Some (32 / 3))))
           ''AAPL'' 100)
        (close_bars ''AAPL'' [Some 10, Some 10, Some 10, Some 12]) = Inr [Order BUY ''AAPL'' 100]
   \<and> evaluate scenario_parameters (holding ''AAPL'' 0 \<lparr>ctx_log := [Initialized ''AAPL'']\<rparr>)
        (close_bars ''AAPL'' [Some 10, Some 10, Some 10, Some 12]) = Inr [Order BUY ''AAPL'' 100]"
proof -
  let ?bd = "close_bars ''AAPL'' [Some 10, Some 10, Some 10, Some 12]"
  let ?c' = "buy (log_msg (holding ''AAPL'' 0) (Signal BUY 3 ''AAPL'' (Some 11) (Some (32 / 3))))
              ''AAPL'' 100"
  let ?c2 = "holding ''AAPL'' 0 \<lparr>ctx_log := [Initialized ''AAPL'']\<rparr>"
  have r: "rolling_mean [Some 10, Some 10, Some 10, Some 12] 2
      = Inr [None, Some 10, Some 10, Some 11]"
    "rolling_mean [Some 10, Some 10, Some 10, Some 12] 3
      = Inr [None, None, Some 10, Some (32 / 3)]" by code_simp+
  have i: "iloc [None, Some 10, Some 10, Some (11::rat)] (- 1) = Inr (Some 11)"
    "iloc [None, Some 10, Some 10, Some (11::rat)] (- 2) = Inr (Some 10)"
    "iloc [None, None, Some 10, Some (32 / 3 :: rat)] (- 1) = Inr (Some (32 / 3))"
    "iloc [None, None, Some 10, Some (32 / 3 :: rat)] (- 2) = Inr (Some 10)"
    "iloc [0, 1, 2, 3 :: int] (- 1) = Inr 3" by code_simp+
  have 1: "on_bar scenario_parameters (holding ''AAPL'' 0) ?bd = Inr ?c'"
    by (simp add: on_bar_def scenario_parameters_def close_bars_def has_column_def
        df_empty_def getitem_def columns_named_def r i isna_def trading_logic_def
        le_price_def lt_price_def
        current_quantity_def get_position_def holding_def)
  have 2: "evaluate scenario_parameters (holding ''AAPL'' 0) ?bd = Inr [Order BUY ''AAPL'' 100]"
    by code_simp
  have 3: "current_quantity ?c2 (symbol scenario_parameters)
      = current_quantity (holding ''AAPL'' 0) (symbol scenario_parameters)" by code_simp
  from evaluate_deterministic[of ?c2 scenario_parameters "holding ''AAPL'' 0" ?bd ?c'] 1 2 3
  show ?thesis by simp
qed

text \<open>
  Claim C9, as stated: for every input no exception reaches the caller. It fails: the
  \<open>try\<close> block ends at line 51, and the condition of lines 54 to 56 raises
  \<open>ValueError\<close> when two columns of the bars are labelled \<open>close\<close> and the frame has
  enough rows.
\<close>

theorem no_exception_escapes_counterexample:
  "evaluate scenario_parameters (holding ''AAPL'' 0)
     [''AAPL'' \<mapsto> \<lparr>df_index = [0, 1, 2, 3],
        df_columns = [(''close'', [Some 10, Some 10, Some 10, Some 12]),
                      (''close'', [Some 10, Some 10, Some 10, Some 12])]\<rparr>]
   = Inl ValueError"
  by code_simp

text \<open>
  Claim C9, amended. When one of the two rolling means raises, the call ends with the
  context unchanged and without an order, whether \<open>bars['close']\<close> is a series or a
  frame; and when the bars hold no history or a single \<open>close\<close> column, \<open>on_bar\<close>
  returns: no exception reaches the caller.
\<close>

theorem no_exception_escapes:
  "(price_history bar_dict (symbol P) \<noteq> SeveralColumns
      \<longrightarrow> (\<exists>ctx'. on_bar P ctx bar_dict = Inr ctx')
          \<and> (\<exists>orders. evaluate P ctx bar_dict = Inr orders))
   \<and> (price_history bar_dict (symbol P) = History close
        \<and> (rolling_mean close (fast_period P) = Inl e
             \<or> rolling_mean close (slow_period P) = Inl e)
      \<longrightarrow> on_bar P ctx bar_dict = Inr ctx \<and> evaluate P ctx bar_dict = Inr [])
   \<and> (bar_dict (symbol P) = Some bars \<and> getitem bars ''close'' = Inr (Columns cols)
        \<and> (rolling_mean_frame cols (fast_period P) = Inl e
             \<or> rolling_mean_frame cols (slow_period P) = Inl e)
      \<longrightarrow> on_bar P ctx bar_dict = Inr ctx \<and> evaluate P ctx bar_dict = Inr [])"
proof (intro conjI impI)
  assume a: "price_history bar_dict (symbol P) \<noteq> SeveralColumns"
  then show "\<exists>ctx'. on_bar P ctx bar_dict = Inr ctx'" by (rule on_bar_returns)
  from a show "\<exists>orders. evaluate P ctx bar_dict = Inr orders" by (rule evaluate_returns)
next
  assume a: "price_history bar_dict (symbol P) = History close
        \<and> (rolling_mean close (fast_period P) = Inl e
             \<or> rolling_mean close (slow_period P) = Inl e)"
  then have h: "price_history bar_dict (symbol P) = History close" by simp
  from a have neg: "fast_period P < 0 \<or> slow_period P < 0"
    by (auto dest: rolling_mean_Inl)
  from on_bar_history[OF h, of ctx] neg show "on_bar P ctx bar_dict = Inr ctx" by auto
  then show "evaluate P ctx bar_dict = Inr []" by (simp add: evaluate_def)
next
  assume a: "bar_dict (symbol P) = Some bars \<and> getitem bars ''close'' = Inr (Columns cols)
        \<and> (rolling_mean_frame cols (fast_period P) = Inl e
             \<or> rolling_mean_frame cols (slow_period P) = Inl e)"
  then have b: "bar_dict (symbol P) = Some bars" "getitem bars ''close'' = Inr (Columns cols)"
    by simp_all
  from a have neg: "fast_period P < 0 \<or> slow_period P < 0"
    by (auto simp: rolling_mean_frame_def split: if_splits)
  show "on_bar P ctx bar_dict = Inr ctx"
  proof (cases "df_empty bars")
    case True
    with b show ?thesis by (simp add: on_bar_def)
  next
    case False
    with b have "price_history bar_dict (symbol P) = SeveralColumns"
      by (simp add: price_history_def)
    from on_bar_several_columns[OF this] neg show ?thesis by auto
  qed
  then show "evaluate P ctx bar_dict = Inr []" by (simp add: evaluate_def)
qed

theorem no_exception_escapes_witness:
  "rolling_mean [Some 10, Some 10, Some 10, Some 12] (- 1) = Inl ValueError
   \<and> on_bar \<lparr>symbol = ''AAPL'', fast_period = - 1, slow_period = 3, trade_size = 100\<rparr>
        (holding ''AAPL'' 0) (close_bars ''AAPL'' [Some 10, Some 10, Some 10, Some 12])
     = Inr (holding ''AAPL'' 0)
   \<and> evaluate \<lparr>symbol = ''AAPL'', fast_period = - 1, slow_period = 3, trade_size = 100\<rparr>
        (holding ''AAPL'' 0) (close_bars ''AAPL'' [Some 10, Some 10, Some 10, Some 12])
     = Inr []
   \<and> rolling_mean_frame [[Some 10, Some 10, Some 10, Some 12],
        [Some 10, Some 10, Some 10, Some 12]] (- 1) = Inl ValueError
   \<and> evaluate \<lparr>symbol = ''AAPL'', fast_period = - 1, slow_period = 3, trade_size = 100\<rparr>
        (holding ''AAPL'' 0)
        [''AAPL'' \<mapsto> \<lparr>df_index = [0, 1, 2, 3],
           df_columns = [(''close'', [Some 10, Some 10, Some 10, Some 12]),
                         (''close'', [Some 10, Some 10, Some 10, Some 12])]\<rparr>]
     = Inr []
   \<and> (\<exists>orders. evaluate scenario_parameters (holding ''AAPL'' 0)
          (close_bars ''AAPL'' [Some 10, Some 10, Some 10, Some 12]) = Inr orders)"
proof -
  let ?h = "[Some 10, Some 10, Some 10, Some (12::rat)]"
  let ?P = "\<lparr>symbol = ''AAPL'', fast_period = - 1, slow_period = 3, trade_size = 100\<rparr>"
  let ?bars = "\<lparr>df_index = [0, 1, 2, 3], df_columns = [(''close'', ?h), (''close'', ?h)]\<rparr>"
  have 1: "price_history (close_bars ''AAPL'' ?h) (symbol ?P) = History ?h" by code_simp
  have 2: "rolling_mean ?h (fast_period ?P) = Inl ValueError" by code_simp
  have 3: "rolling_mean ?h (- 1) = Inl ValueError" by code_simp
  have 4: "[''AAPL'' \<mapsto> ?bars] (symbol ?P) = Some ?bars" by simp
  have 5: "getitem ?bars ''close'' = Inr (Columns [?h, ?h])" by code_simp
  have 6: "rolling_mean_frame [?h, ?h] (fast_period ?P) = Inl ValueError" by code_simp
  have 7: "rolling_mean_frame [?h, ?h] (- 1) = Inl ValueError" by code_simp
  have 8: "price_history (close_bars ''AAPL'' ?h) (symbol scenario_parameters)
      \<noteq> SeveralColumns" by code_simp
  from no_exception_escapes[of "close_bars ''AAPL'' ?h" ?P "holding ''AAPL'' 0" ?h ValueError]
    1 2
  have a: "on_bar ?P (holding ''AAPL'' 0) (close_bars ''AAPL'' ?h) = Inr (holding ''AAPL'' 0)"
    "evaluate ?P (holding ''AAPL'' 0) (close_bars ''AAPL'' ?h) = Inr []" by blast+
  from no_exception_escapes[of "[''AAPL'' \<mapsto> ?bars]" ?P "holding ''AAPL'' 0" _ ValueError
      ?bars "[?h, ?h]"] 4 5 6
  have b: "evaluate ?P (holding ''AAPL'' 0) [''AAPL'' \<mapsto> ?bars] = Inr []" by blast
  from no_exception_escapes[of "close_bars ''AAPL'' ?h" scenario_parameters
      "holding ''AAPL'' 0"] 8
  have c: "\<exists>orders. evaluate scenario_parameters (holding ''AAPL'' 0)
          (close_bars ''AAPL'' ?h) = Inr orders" by blast
  from a b c 3 7 show ?thesis by blast
qed

section \<open>What an order carries\<close>

text \<open>
  Claim C10. A call places at most one order, and the order is on the configured symbol
  for exactly \<open>trade_size\<close> shares, whatever the current quantity: a SELL sells
  \<open>trade_size\<close> shares, so it flattens the position only when the held quantity equals
  \<open>trade_size\<close>. With the parameters of \<open>initialize\<close> every order is for 100 shares of
  AAPL.
\<close>

theorem order_payload:
  assumes "evaluate P ctx bar_dict = Inr orders"
  shows "(orders = [] \<or> orders = [Order BUY (symbol P) (trade_size P)]
           \<or> orders = [Order SELL (symbol P) (trade_size P)])
       \<and> (Order SELL s n \<in> set orders
           \<longrightarrow> s = symbol P \<and> n = trade_size P \<and> 0 < current_quantity ctx (symbol P)
               \<and> (current_quantity ctx (symbol P) - n = 0
                    \<longleftrightarrow> current_quantity ctx (symbol P) = trade_size P))
       \<and> (P = fst (initialize ctx0)
           \<longrightarrow> set orders \<subseteq> {Order BUY ''AAPL'' 100, Order SELL ''AAPL'' 100})"
proof -
  have i: "P = fst (initialize ctx0) \<Longrightarrow> symbol P = ''AAPL'' \<and> trade_size P = 100"
    by (simp add: initialize_def)
  from evaluate_shape[OF assms] i show ?thesis by auto
qed

theorem order_payload_witness:
  "fst (initialize (holding ''AAPL'' 250))
     = \<lparr>symbol = ''AAPL'', fast_period = 10, slow_period = 30, trade_size = 100\<rparr>
   \<and> current_quantity (snd (initialize (holding ''AAPL'' 250))) ''AAPL'' = 250
   \<and> evaluate (fst (initialize (holding ''AAPL'' 250))) (snd (initialize (holding ''AAPL'' 250)))
        (close_bars ''AAPL'' (replicate 30 (Some 10) @ [Some 8])) = Inr [Order SELL ''AAPL'' 100]
   \<and> (250::int) - 100 \<noteq> 0"
proof -
  let ?P = "fst (initialize (holding ''AAPL'' 250))"
  let ?c = "snd (initialize (holding ''AAPL'' 250))"
  let ?bd = "close_bars ''AAPL'' (replicate 30 (Some 10) @ [Some 8])"
  have 1: "evaluate ?P ?c ?bd = Inr [Order SELL ''AAPL'' 100]" by code_simp
  have 2: "?P = \<lparr>symbol = ''AAPL'', fast_period = 10, slow_period = 30, trade_size = 100\<rparr>"
    by (simp add: initialize_def)
  have 3: "current_quantity ?c ''AAPL'' = 250" by code_simp
  have 4: "Order SELL ''AAPL'' 100 \<in> set [Order SELL ''AAPL'' 100]" by simp
  from order_payload[OF 1, of "''AAPL''" 100 "holding ''AAPL'' 250"] 1 2 3 4
  show ?thesis by simp
qed

end
